theory Spec2Isabelle
  imports Complex_Main "HOL-Library.Char_ord" "HOL-Library.List_Lexorder" "HOL-Library.Product_Lexorder"
begin

section \<open>Python values\<close>

text \<open>
  An item handed to the categorization engine is a \<^verbatim>\<open>Dict[str, Any]\<close>. The values the
  embedding covers are \<^verbatim>\<open>None\<close>, booleans, integers and strings; \<open>truthy\<close> is Python's
  truth test and \<open>py_str\<close> is \<^verbatim>\<open>str(v)\<close>. Scores are Python floats; they are
  modelled as real numbers, so sums and products are exact.
\<close>

datatype pyval = PyNone | PyBool bool | PyInt int | PyStr string

fun truthy :: "pyval \<Rightarrow> bool" where
  "truthy PyNone = False"
| "truthy (PyBool b) = b"
| "truthy (PyInt i) = (i \<noteq> 0)"
| "truthy (PyStr s) = (s \<noteq> [])"

definition digit :: "nat \<Rightarrow> char" where
  "digit n = ''0123456789'' ! n"

function nat_str :: "nat \<Rightarrow> string" where
  "nat_str n = (if n < 10 then [digit n] else nat_str (n div 10) @ [digit (n mod 10)])"
  by pat_completeness auto
termination
  by (relation "measure id") auto

fun py_str :: "pyval \<Rightarrow> string" where
  "py_str PyNone = ''None''"
| "py_str (PyBool b) = (if b then ''True'' else ''False'')"
| "py_str (PyInt i) = (if i < 0 then CHR ''-'' # nat_str (nat (- i)) else nat_str (nat i))"
| "py_str (PyStr s) = s"

text \<open>\<^verbatim>\<open>str.lower()\<close> on the ASCII letters; every other character is kept.\<close>

definition lower_char :: "char \<Rightarrow> char" where
  "lower_char c =
     (case map_of (zip ''ABCDEFGHIJKLMNOPQRSTUVWXYZ'' ''abcdefghijklmnopqrstuvwxyz'') c of
        Some d \<Rightarrow> d
      | None \<Rightarrow> c)"

definition lower :: "string \<Rightarrow> string" where
  "lower s = map lower_char s"

text \<open>\<^verbatim>\<open>k in s\<close> for strings: \<open>k\<close> occurs in \<open>s\<close> as a contiguous substring.\<close>

fun str_in :: "string \<Rightarrow> string \<Rightarrow> bool" where
  "str_in k [] = (k = [])"
| "str_in k (c # cs) = (take (length k) (c # cs) = k \<or> str_in k cs)"

text \<open>\<^verbatim>\<open>sep.join(parts)\<close>.\<close>

fun join :: "string \<Rightarrow> string list \<Rightarrow> string" where
  "join sep [] = []"
| "join sep [x] = x"
| "join sep (x # y # ys) = x @ sep @ join sep (y # ys)"

section \<open>The regular-expression library\<close>

text \<open>
  Python's \<^verbatim>\<open>re\<close> module is not part of the repository, so it is a parameter of every
  function that uses it: \<open>re_valid re p\<close> says that \<^verbatim>\<open>re.compile(p)\<close> does not raise
  \<^verbatim>\<open>re.error\<close>, and \<open>re_search re ic p t\<close> says that
  \<^verbatim>\<open>re.compile(p, re.IGNORECASE if ic else 0).search(t)\<close> finds a match.
\<close>

record regex_lib =
  re_valid :: "string \<Rightarrow> bool"
  re_search :: "bool \<Rightarrow> string \<Rightarrow> string \<Rightarrow> bool"

text \<open>
  One instance, used where a theorem is applied to concrete data. It accepts the
  patterns made of letters, digits and spaces, optionally with \<^verbatim>\<open>^\<close> in front and
  \<^verbatim>\<open>$\<close> at the end, and rejects every other pattern. On a text without line breaks
  such a pattern is found exactly where the literal occurs: anywhere, at the start, at
  the end, or as the whole text, after case folding when the flag is set. The instance
  is applied only to patterns on which it agrees with \<^verbatim>\<open>re\<close>: the ones it accepts,
  and \<^verbatim>\<open>(\<close>, which both reject.
\<close>

definition literal_char :: "char \<Rightarrow> bool" where
  "literal_char c =
     (c \<in> set ''abcdefghijklmnopqrstuvwxyzABCDEFGHIJKLMNOPQRSTUVWXYZ0123456789 '')"

definition strip_anchors :: "string \<Rightarrow> bool \<times> bool \<times> string" where
  "strip_anchors p =
     (let at_start = (take 1 p = ''^'');
          p1 = (if at_start then drop 1 p else p);
          at_end = (p1 \<noteq> [] \<and> last p1 = CHR ''$'');
          body = (if at_end then butlast p1 else p1)
      in (at_start, at_end, body))"

definition literal_search :: "bool \<Rightarrow> string \<Rightarrow> string \<Rightarrow> bool" where
  "literal_search ic p t =
     (case strip_anchors p of (at_start, at_end, body) \<Rightarrow>
        let b = (if ic then lower body else body);
            u = (if ic then lower t else t)
        in if at_start \<and> at_end then u = b
           else if at_start then take (length b) u = b
           else if at_end then length b \<le> length u \<and> drop (length u - length b) u = b
           else str_in b u)"

definition literal_re :: regex_lib where
  "literal_re =
     \<lparr> re_valid = (\<lambda>p. list_all literal_char (snd (snd (strip_anchors p)))),
       re_search = literal_search \<rparr>"

section \<open>Categorization engine\<close>

subsection \<open>Data model\<close>

datatype CategoryType =
  EBOOK | GAME | SOFTWARE | AUDIO | VIDEO | COMIC | BUNDLE | SUBSCRIPTION_CONTENT | UNKNOWN

text \<open>Iterating the enumeration yields its members in declaration order.\<close>

definition all_categories :: "CategoryType list" where
  "all_categories =
     [EBOOK, GAME, SOFTWARE, AUDIO, VIDEO, COMIC, BUNDLE, SUBSCRIPTION_CONTENT, UNKNOWN]"

fun category_value :: "CategoryType \<Rightarrow> string" where
  "category_value EBOOK = ''ebook''"
| "category_value GAME = ''game''"
| "category_value SOFTWARE = ''software''"
| "category_value AUDIO = ''audio''"
| "category_value VIDEO = ''video''"
| "category_value COMIC = ''comic''"
| "category_value BUNDLE = ''bundle''"
| "category_value SUBSCRIPTION_CONTENT = ''subscription_content''"
| "category_value UNKNOWN = ''unknown''"

text \<open>
  \<open>field_weights\<close> is a dict; it is kept as an association list in insertion order, the
  order in which \<^verbatim>\<open>.items()\<close> yields it. \<open>required_patterns\<close> and \<open>exclusion_patterns\<close>
  default to \<^verbatim>\<open>None\<close>. The fields \<^verbatim>\<open>category\<close> and \<^verbatim>\<open>subcategory\<close> of a rule are
  called \<open>rule_category\<close> and \<open>rule_subcategory\<close>, apart from those of the result.
  The patterns of a rule are pattern texts: the matcher compiles them with
  \<^verbatim>\<open>re.IGNORECASE\<close> when it is built, so a matcher exists only when they all compile.
\<close>

record CategoryRule =
  name :: string
  rule_category :: CategoryType
  rule_subcategory :: string
  patterns :: "string list"
  weight :: real
  field_weights :: "(string \<times> real) list"
  required_patterns :: "string list option"
  exclusion_patterns :: "string list option"

type_synonym item = "string \<rightharpoonup> pyval"

type_synonym score_map = "CategoryType \<Rightarrow> real"

text \<open>The field \<^verbatim>\<open>method\<close> of the result is called \<open>method_used\<close> here.\<close>

record CategoryResult =
  category :: CategoryType
  subcategory :: string
  confidence :: real
  method_used :: string
  matched_rules :: "string list"
  scores :: score_map

text \<open>
  A matcher is either the pattern matcher over a rule list or a matcher supplied through
  \<^verbatim>\<open>add_matcher\<close>: any implementation of \<^verbatim>\<open>match\<close>, given by its type name and the dict
  of scores it returns for an item.
\<close>

datatype CategoryMatcher =
  PatternMatcher "CategoryRule list"
| CustomMatcher string "item \<Rightarrow> CategoryType \<rightharpoonup> real"

record CategorizationEngine =
  matchers :: "CategoryMatcher list"
  rules :: "CategoryRule list"
  pattern_matcher :: CategoryMatcher

datatype error = ValueError string | StoreError string | TypeError string | IndexError string

subsection \<open>PatternMatcher\<close>

text \<open>\<^verbatim>\<open>field in item and item[field]\<close>, then \<^verbatim>\<open>pattern.search(str(item[field]).lower())\<close>.\<close>

definition field_matches :: "regex_lib \<Rightarrow> string \<Rightarrow> item \<Rightarrow> string \<Rightarrow> bool" where
  "field_matches re pattern item field =
     (case item field of
        None \<Rightarrow> False
      | Some v \<Rightarrow> truthy v \<and> re_search re True pattern (lower (py_str v)))"

definition matches_in_item :: "regex_lib \<Rightarrow> string \<Rightarrow> item \<Rightarrow> bool" where
  "matches_in_item re pattern item =
     list_ex (field_matches re pattern item)
       [''name'', ''human_name'', ''description'', ''machine_name'']"

text \<open>The scoring loops of \<^verbatim>\<open>_score_rule\<close>: patterns outside, weighted fields inside.\<close>

definition score_patterns :: "regex_lib \<Rightarrow> CategoryRule \<Rightarrow> item \<Rightarrow> real" where
  "score_patterns re rule item =
     fold (\<lambda>pattern total_score.
        fold (\<lambda>(field, field_weight) total_score.
           if field_matches re pattern item field
           then total_score + weight rule * field_weight
           else total_score)
          (field_weights rule) total_score)
       (patterns rule) 0"

text \<open>
  \<^verbatim>\<open>_score_rule\<close> has three return statements. \<open>score_rule_at\<close> gives the statement that
  is reached together with the value returned there; \<open>score_rule\<close> is the value alone.
  \<^verbatim>\<open>if rule.required_patterns:\<close> is false for \<^verbatim>\<open>None\<close> and for the empty list.
\<close>

datatype return_site = Required_pattern_not_found | Exclusion_pattern_found | Pattern_score

definition score_rule_at :: "regex_lib \<Rightarrow> CategoryRule \<Rightarrow> item \<Rightarrow> return_site \<times> real" where
  "score_rule_at re rule item =
     (if (case required_patterns rule of
            None \<Rightarrow> False
          | Some req \<Rightarrow> req \<noteq> [] \<and> list_ex (\<lambda>pattern. \<not> matches_in_item re pattern item) req)
      then (Required_pattern_not_found, 0)
      else if (case exclusion_patterns rule of
                 None \<Rightarrow> False
               | Some exc \<Rightarrow> exc \<noteq> [] \<and> list_ex (\<lambda>pattern. matches_in_item re pattern item) exc)
      then (Exclusion_pattern_found, 0)
      else (Pattern_score, score_patterns re rule item))"

definition score_rule :: "regex_lib \<Rightarrow> CategoryRule \<Rightarrow> item \<Rightarrow> real" where
  "score_rule re rule item = snd (score_rule_at re rule item)"

definition pattern_match :: "regex_lib \<Rightarrow> CategoryRule list \<Rightarrow> item \<Rightarrow> score_map" where
  "pattern_match re rs item =
     fold (\<lambda>rule scores.
        scores(rule_category rule := scores (rule_category rule) + score_rule re rule item))
       rs (\<lambda>cat. 0)"

fun match :: "regex_lib \<Rightarrow> CategoryMatcher \<Rightarrow> item \<Rightarrow> CategoryType \<rightharpoonup> real" where
  "match re (PatternMatcher rs) item = (\<lambda>cat. Some (pattern_match re rs item cat))"
| "match re (CustomMatcher tname f) item = f item"

fun type_name :: "CategoryMatcher \<Rightarrow> string" where
  "type_name (PatternMatcher rs) = ''PatternMatcher''"
| "type_name (CustomMatcher tname f) = tname"

subsection \<open>CategorizationEngine\<close>

text \<open>
  \<^verbatim>\<open>max(all_scores, key=all_scores.get)\<close>: the keys are visited in the dict's order and
  the candidate is replaced only by a strictly larger key value; on an empty iterable
  \<^verbatim>\<open>max\<close> raises \<^verbatim>\<open>ValueError\<close>.
\<close>

fun max_from :: "('a \<Rightarrow> real) \<Rightarrow> 'a \<Rightarrow> 'a list \<Rightarrow> 'a" where
  "max_from key best [] = best"
| "max_from key best (x # xs) = max_from key (if key x > key best then x else best) xs"

definition py_max :: "'a list \<Rightarrow> ('a \<Rightarrow> real) \<Rightarrow> error + 'a" where
  "py_max xs key =
     (case xs of
        [] \<Rightarrow> Inl (ValueError ''max() arg is an empty sequence'')
      | x # rest \<Rightarrow> Inr (max_from key x rest))"

text \<open>\<^verbatim>\<open>for cat, score in scores.items(): all_scores[cat] += score\<close>.\<close>

definition add_scores :: "score_map \<Rightarrow> (CategoryType \<rightharpoonup> real) \<Rightarrow> score_map" where
  "add_scores all_scores sc =
     (\<lambda>cat. case sc cat of None \<Rightarrow> all_scores cat | Some score \<Rightarrow> all_scores cat + score)"

definition aggregate :: "regex_lib \<Rightarrow> CategoryMatcher list \<Rightarrow> item \<Rightarrow> score_map" where
  "aggregate re ms item =
     fold (\<lambda>matcher all_scores. add_scores all_scores (match re matcher item)) ms (\<lambda>cat. 0)"

definition item_get :: "item \<Rightarrow> string \<Rightarrow> pyval \<Rightarrow> pyval" where
  "item_get item k dflt = (case item k of None \<Rightarrow> dflt | Some v \<Rightarrow> v)"

definition any_in :: "string list \<Rightarrow> string \<Rightarrow> bool" where
  "any_in keywords nm = list_ex (\<lambda>keyword. str_in keyword nm) keywords"

definition determine_subcategory :: "CategoryType \<Rightarrow> item \<Rightarrow> string" where
  "determine_subcategory cat item =
     (let a = item_get item ''name'' (PyStr []);
          nm = lower (py_str (if truthy a then a else item_get item ''human_name'' (PyStr [])))
      in if cat = EBOOK then
           (if any_in [''programming'', ''coding'', ''development''] nm then ''programming''
            else if any_in [''security'', ''hacking'', ''pentesting''] nm then ''security''
            else if any_in [''cooking'', ''recipe'', ''kitchen''] nm then ''cooking''
            else if any_in [''gardening'', ''garden'', ''plant''] nm then ''gardening''
            else if any_in [''art'', ''design'', ''creative''] nm then ''arts''
            else if any_in [''survival'', ''outdoor'', ''wilderness''] nm then ''survival''
            else ''general'')
         else if cat = GAME then
           (if any_in [''strategy'', ''rts'', ''turn-based''] nm then ''strategy''
            else if any_in [''rpg'', ''role playing'', ''adventure''] nm then ''rpg''
            else if any_in [''simulation'', ''simulator'', ''sim''] nm then ''simulation''
            else if any_in [''puzzle'', ''brain'', ''logic''] nm then ''puzzle''
            else if any_in [''action'', ''shooter'', ''fps''] nm then ''action''
            else ''general'')
         else if cat = SUBSCRIPTION_CONTENT then
           (if str_in ''coupon'' nm then ''coupon''
            else if str_in ''choice'' nm then ''humble_choice''
            else ''general'')
         else ''general'')"

definition categorize :: "regex_lib \<Rightarrow> CategorizationEngine \<Rightarrow> item \<Rightarrow> error + CategoryResult" where
  "categorize re eng item =
     (let all_scores = aggregate re (matchers eng) item
      in case py_max all_categories all_scores of
           Inl e \<Rightarrow> Inl e
         | Inr best_category \<Rightarrow>
             Inr \<lparr> category = best_category,
                   subcategory = determine_subcategory best_category item,
                   confidence = min (all_scores best_category) 1,
                   method_used = join ''+'' (map type_name (matchers eng)),
                   matched_rules = [],
                   scores = all_scores \<rparr>)"

subsection \<open>Engine construction\<close>

text \<open>
  The default rules are written with raw strings such as \<^verbatim>\<open>r'\bbook\b'\<close>; \<open>wb w\<close> is
  the pattern text \<^verbatim>\<open>\b\<close>, \<open>w\<close>, \<^verbatim>\<open>\b\<close>. \<open>new_rule\<close> is the dataclass constructor
  with \<open>required_patterns\<close> and \<open>exclusion_patterns\<close> left at their default.
\<close>

definition bslash :: char where
  "bslash = CHR 0x5C"

definition wb :: "string \<Rightarrow> string" where
  "wb w = [bslash, CHR ''b''] @ w @ [bslash, CHR ''b'']"

definition new_rule ::
  "string \<Rightarrow> CategoryType \<Rightarrow> string \<Rightarrow> string list \<Rightarrow> real \<Rightarrow> (string \<times> real) list \<Rightarrow> CategoryRule" where
  "new_rule nm cat sub pats w fws =
     \<lparr> name = nm, rule_category = cat, rule_subcategory = sub, patterns = pats, weight = w,
       field_weights = fws, required_patterns = None, exclusion_patterns = None \<rparr>"

definition load_default_rules :: "CategoryRule list" where
  "load_default_rules =
     [ new_rule ''ebook_keywords'' EBOOK ''general''
         [wb ''book'', wb ''guide'', wb ''manual'', wb ''tutorial'', wb ''handbook''] 1.0
         [(''name'', 0.8), (''human_name'', 0.8), (''description'', 0.3), (''machine_name'', 0.5)],
       new_rule ''ebook_programming'' EBOOK ''programming''
         [wb ''programming'', wb ''coding'', wb ''development'', wb ''python'', wb ''java'',
          wb ''javascript''] 1.2
         [(''name'', 0.9), (''human_name'', 0.9), (''description'', 0.4)],
       new_rule ''ebook_security'' EBOOK ''security''
         [wb ''security'', wb ''hacking'', wb ''pentesting'', wb ''cyber'', wb ''malware''] 1.2
         [(''name'', 0.9), (''human_name'', 0.9), (''description'', 0.4)],
       new_rule ''game_keywords'' GAME ''general''
         [wb ''game'', wb ''adventure'', wb ''quest'', wb ''legend''] 1.0
         [(''name'', 0.8), (''human_name'', 0.8), (''description'', 0.3)],
       new_rule ''game_strategy'' GAME ''strategy''
         [wb ''strategy'', wb ''rts'', wb ''turn.based'', wb ''civilization'', wb ''war''] 1.1
         [(''name'', 0.9), (''human_name'', 0.9), (''description'', 0.4)],
       new_rule ''software_keywords'' SOFTWARE ''general''
         [wb ''software'', wb ''tool'', wb ''utility'', wb ''app'', wb ''suite'', wb ''studio''] 1.0
         [(''name'', 0.8), (''human_name'', 0.8), (''description'', 0.3)],
       new_rule ''audio_keywords'' AUDIO ''general''
         [wb ''soundtrack'', wb ''music'', wb ''audio'', wb ''mp3'', wb ''album''] 1.0
         [(''name'', 0.8), (''human_name'', 0.8), (''description'', 0.3)],
       new_rule ''subscription_coupons'' SUBSCRIPTION_CONTENT ''coupon''
         [wb ''coupon'', wb ''discount'',
          [bslash, CHR ''%'', bslash, CHR ''s'', CHR ''*''] @ ''off'' @ [bslash, CHR ''b'']] 2.0
         [(''name'', 1.0), (''human_name'', 1.0), (''machine_name'', 0.8)],
       new_rule ''subscription_choice'' SUBSCRIPTION_CONTENT ''humble_choice''
         [wb ''choice'', wb ''subscription''] 1.8
         [(''name'', 1.0), (''human_name'', 1.0), (''machine_name'', 0.8)] ]"

definition CategorizationEngine_init :: CategorizationEngine where
  "CategorizationEngine_init =
     \<lparr> matchers = [PatternMatcher load_default_rules],
       rules = load_default_rules,
       pattern_matcher = PatternMatcher load_default_rules \<rparr>"

definition add_matcher :: "CategorizationEngine \<Rightarrow> CategoryMatcher \<Rightarrow> CategorizationEngine" where
  "add_matcher eng matcher = eng\<lparr>matchers := matchers eng @ [matcher]\<rparr>"

text \<open>\<^verbatim>\<open>add_rule\<close> rebuilds the pattern matcher and puts it in place of the first one.\<close>

fun replace_pattern_matcher :: "CategoryMatcher \<Rightarrow> CategoryMatcher list \<Rightarrow> CategoryMatcher list" where
  "replace_pattern_matcher pm [] = []"
| "replace_pattern_matcher pm (PatternMatcher rs # ms) = pm # ms"
| "replace_pattern_matcher pm (CustomMatcher tname f # ms) =
     CustomMatcher tname f # replace_pattern_matcher pm ms"

definition add_rule :: "CategorizationEngine \<Rightarrow> CategoryRule \<Rightarrow> CategorizationEngine" where
  "add_rule eng rule =
     (let rs = rules eng @ [rule]; pm = PatternMatcher rs
      in \<lparr> matchers = replace_pattern_matcher pm (matchers eng), rules = rs, pattern_matcher = pm \<rparr>)"

definition create_humble_bundle_engine :: CategorizationEngine where
  "create_humble_bundle_engine =
     add_rule CategorizationEngine_init
       (new_rule ''humble_bundle_specific'' BUNDLE ''humble_bundle'' [wb ''bundle'', wb ''humble''] 1.5
          [(''name'', 1.0), (''human_name'', 1.0)])"


section \<open>Search provider\<close>

subsection \<open>The store\<close>

text \<open>
  The database is reached through a DuckDB connection, which is not part of the
  repository; the embedding describes it by what it answers. Every search query has the
  same \<^verbatim>\<open>FROM products p JOIN asset_sources a ... LEFT JOIN downloads d\<close> clause; a
  value of \<open>joined\<close> is one row of that join, with the columns the queries mention, named
  with their table alias. Text columns hold a string or \<^verbatim>\<open>NULL\<close>, \<open>p.rating\<close> a number
  or \<^verbatim>\<open>NULL\<close>.
\<close>

record joined =
  p_product_id :: "string option"
  p_human_name :: "string option"
  p_description :: "string option"
  p_category :: "string option"
  p_subcategory :: "string option"
  p_developer :: "string option"
  p_publisher :: "string option"
  p_tags :: "string option"
  p_rating :: "real option"
  p_release_date :: "string option"
  a_source_name :: "string option"
  b_bundle_name :: "string option"
  d_platform :: "string option"
  d_download_type :: "string option"
  d_file_size_display :: "string option"

text \<open>
  A row of the search projection, the tuple that \<^verbatim>\<open>fetchall\<close> yields:
  \<open>c\<^sub>i\<close> is \<^verbatim>\<open>row[i]\<close>. The projection has no description column.
\<close>

record row =
  c0 :: "string option"
  c1 :: "string option"
  c2 :: "string option"
  c3 :: "string option"
  c4 :: "string option"
  c5 :: "string option"
  c6 :: "string option"
  c7 :: "real option"
  c8 :: "string option"
  c9 :: "string option"
  c10 :: "string option"
  c11 :: "string option"
  c12 :: "string option"
  c13 :: "string option"

definition select_row :: "joined \<Rightarrow> row" where
  "select_row j =
     \<lparr> c0 = p_product_id j, c1 = p_human_name j, c2 = p_category j, c3 = p_subcategory j,
       c4 = p_developer j, c5 = p_publisher j, c6 = p_tags j, c7 = p_rating j,
       c8 = p_release_date j, c9 = a_source_name j, c10 = b_bundle_name j,
       c11 = d_platform j, c12 = d_download_type j, c13 = d_file_size_display j \<rparr>"

text \<open>Values passed as query parameters and held by the formatted results.\<close>

datatype sqlval = Null | Text string | Number real

fun sql_truthy :: "sqlval \<Rightarrow> bool" where
  "sql_truthy Null = False"
| "sql_truthy (Text s) = (s \<noteq> [])"
| "sql_truthy (Number x) = (x \<noteq> 0)"

definition text_val :: "string option \<Rightarrow> sqlval" where
  "text_val v = (case v of None \<Rightarrow> Null | Some s \<Rightarrow> Text s)"

definition num_val :: "real option \<Rightarrow> sqlval" where
  "num_val v = (case v of None \<Rightarrow> Null | Some x \<Rightarrow> Number x)"

text \<open>
  A condition of a \<^verbatim>\<open>WHERE\<close> clause is a column, an operator and the parameter bound to
  its \<^verbatim>\<open>?\<close>. The clause itself is the sequence of conditions and keywords in the order
  in which the code concatenates them; \<open>Paren_or\<close> is a parenthesised disjunction. A
  statement is \<open>None\<close> when its text has no \<^verbatim>\<open>WHERE\<close>. Every statement ends with
  \<^verbatim>\<open>ORDER BY p.human_name\<close>.
\<close>

datatype sql_op = ILIKE | EQ | GE | LE

datatype sql_cond = Cond string sql_op sqlval

datatype where_item = Atom sql_cond | Paren_or "sql_cond list" | Kw_AND | Kw_OR

type_synonym sql = "where_item list option"

text \<open>
  What the connection answers: the rows of the join, or the message of the exception
  that \<^verbatim>\<open>execute\<close> raises for a search query; its \<^verbatim>\<open>ILIKE\<close> operator on a value and a
  pattern; and, for each of the four statistics queries, the rows returned or the message
  of the exception raised.
\<close>

datatype stats_sql = Count_products | Count_bundles | Category_counts | Source_counts

record conn =
  search_rows :: "string + joined list"
  ilike :: "string \<Rightarrow> string \<Rightarrow> bool"
  stats :: "stats_sql \<Rightarrow> string + sqlval list list"

text \<open>
  Column references. \<^verbatim>\<open>products\<close> has no column \<^verbatim>\<open>bundle_name\<close>, so \<^verbatim>\<open>p.bundle_name\<close>
  does not resolve and the store rejects the statement.
\<close>

definition column :: "string \<Rightarrow> joined \<Rightarrow> sqlval option" where
  "column cname j =
     map_of
       [(''p.product_id'', text_val (p_product_id j)),
        (''p.human_name'', text_val (p_human_name j)),
        (''p.description'', text_val (p_description j)),
        (''p.category'', text_val (p_category j)),
        (''p.subcategory'', text_val (p_subcategory j)),
        (''p.developer'', text_val (p_developer j)),
        (''p.publisher'', text_val (p_publisher j)),
        (''p.tags'', text_val (p_tags j)),
        (''p.rating'', num_val (p_rating j)),
        (''p.release_date'', text_val (p_release_date j)),
        (''a.source_name'', text_val (a_source_name j)),
        (''b.bundle_name'', text_val (b_bundle_name j)),
        (''d.platform'', text_val (d_platform j)),
        (''d.download_type'', text_val (d_download_type j)),
        (''d.file_size_display'', text_val (d_file_size_display j))] cname"

text \<open>
  Comparison of a column value with a parameter. A comparison with \<^verbatim>\<open>NULL\<close> is not
  true, and neither is one between a text and a number. \<^verbatim>\<open>ILIKE\<close> is the store's own
  operator.
\<close>

fun compare :: "sql_op \<Rightarrow> sqlval \<Rightarrow> sqlval \<Rightarrow> bool" where
  "compare EQ (Text v) (Text w) = (v = w)"
| "compare EQ (Number x) (Number y) = (x = y)"
| "compare GE (Number x) (Number y) = (x \<ge> y)"
| "compare LE (Number x) (Number y) = (x \<le> y)"
| "compare oper v w = False"

fun like :: "(string \<Rightarrow> string \<Rightarrow> bool) \<Rightarrow> sqlval \<Rightarrow> sqlval \<Rightarrow> bool" where
  "like lk (Text v) (Text pat) = lk v pat"
| "like lk v w = False"

fun holds :: "(string \<Rightarrow> string \<Rightarrow> bool) \<Rightarrow> joined \<Rightarrow> sql_cond \<Rightarrow> bool" where
  "holds lk j (Cond cname oper param) =
     (case column cname j of
        None \<Rightarrow> False
      | Some v \<Rightarrow> if oper = ILIKE then like lk v param else compare oper v param)"

text \<open>\<^verbatim>\<open>AND\<close> binds tighter than \<^verbatim>\<open>OR\<close>: the clause is a disjunction of conjunctions.\<close>

fun split_or :: "where_item list \<Rightarrow> where_item list list" where
  "split_or [] = [[]]"
| "split_or (Kw_OR # ts) = [] # split_or ts"
| "split_or (t # ts) = (case split_or ts of g # gs \<Rightarrow> (t # g) # gs | [] \<Rightarrow> [[t]])"

fun item_holds :: "(string \<Rightarrow> string \<Rightarrow> bool) \<Rightarrow> joined \<Rightarrow> where_item \<Rightarrow> bool" where
  "item_holds lk j (Atom c) = holds lk j c"
| "item_holds lk j (Paren_or cs) = list_ex (holds lk j) cs"
| "item_holds lk j Kw_AND = True"
| "item_holds lk j Kw_OR = True"

definition where_holds :: "(string \<Rightarrow> string \<Rightarrow> bool) \<Rightarrow> sql \<Rightarrow> joined \<Rightarrow> bool" where
  "where_holds lk q j =
     (case q of
        None \<Rightarrow> True
      | Some ts \<Rightarrow> list_ex (list_all (item_holds lk j)) (split_or ts))"

fun item_conds :: "where_item \<Rightarrow> sql_cond list" where
  "item_conds (Atom c) = [c]"
| "item_conds (Paren_or cs) = cs"
| "item_conds Kw_AND = []"
| "item_conds Kw_OR = []"

definition known_columns :: "string list" where
  "known_columns =
     [''p.product_id'', ''p.human_name'', ''p.description'', ''p.category'', ''p.subcategory'',
      ''p.developer'', ''p.publisher'', ''p.tags'', ''p.rating'', ''p.release_date'',
      ''a.source_name'', ''b.bundle_name'', ''d.platform'', ''d.download_type'',
      ''d.file_size_display'']"

fun cond_column :: "sql_cond \<Rightarrow> string" where
  "cond_column (Cond cname oper param) = cname"

definition resolves :: "sql \<Rightarrow> bool" where
  "resolves q =
     (case q of
        None \<Rightarrow> True
      | Some ts \<Rightarrow>
          list_all (\<lambda>cnd. cond_column cnd \<in> set known_columns) (concat (map item_conds ts)))"

text \<open>
  \<^verbatim>\<open>ORDER BY p.human_name\<close>: ascending, \<^verbatim>\<open>NULL\<close> last, rows with equal names in the
  order of the join.
\<close>

definition name_key :: "joined \<Rightarrow> bool \<times> string" where
  "name_key j = (case p_human_name j of None \<Rightarrow> (True, []) | Some s \<Rightarrow> (False, s))"

definition order_by_human_name :: "joined list \<Rightarrow> joined list" where
  "order_by_human_name js = sort_key name_key js"

text \<open>\<^verbatim>\<open>self.conn.execute(sql, params).fetchall()\<close> for a search statement.\<close>

definition execute :: "conn \<Rightarrow> sql \<Rightarrow> error + row list" where
  "execute cn q =
     (case search_rows cn of
        Inl msg \<Rightarrow> Inl (StoreError msg)
      | Inr js \<Rightarrow>
          if \<not> resolves q then Inl (StoreError ''Binder Error: column not found'')
          else Inr (map select_row (order_by_human_name (filter (where_holds (ilike cn) q) js))))"

subsection \<open>DuckDBSearchProvider\<close>

definition searchable_fields :: "string list" where
  "searchable_fields =
     [''human_name'', ''description'', ''category'', ''subcategory'', ''developer'',
      ''publisher'', ''tags'', ''bundle_name'']"

definition get_searchable_fields :: "string list" where
  "get_searchable_fields = searchable_fields"

definition validate_regex :: "regex_lib \<Rightarrow> string \<Rightarrow> bool" where
  "validate_regex re pattern = re_valid re pattern"

text \<open>
  \<^verbatim>\<open>filters\<close> is an optional dict, kept as an association list; \<^verbatim>\<open>filters.get(k)\<close> is
  \<^verbatim>\<open>None\<close> for a missing key. Each guard \<^verbatim>\<open>if filters.get(k):\<close> is Python's truth
  test of the value.
\<close>

type_synonym filters = "(string \<times> sqlval) list"

definition filters_get :: "filters \<Rightarrow> string \<Rightarrow> sqlval" where
  "filters_get fs k = (case map_of fs k of None \<Rightarrow> Null | Some v \<Rightarrow> v)"

definition filter_conditions :: "filters \<Rightarrow> sql_cond list" where
  "filter_conditions fs =
     (if sql_truthy (filters_get fs ''category'')
      then [Cond ''p.category'' EQ (filters_get fs ''category'')] else []) @
     (if sql_truthy (filters_get fs ''source'')
      then [Cond ''a.source_name'' EQ (filters_get fs ''source'')] else []) @
     (if sql_truthy (filters_get fs ''platform'')
      then [Cond ''d.platform'' EQ (filters_get fs ''platform'')] else []) @
     (if sql_truthy (filters_get fs ''rating_min'')
      then [Cond ''p.rating'' GE (filters_get fs ''rating_min'')] else []) @
     (if sql_truthy (filters_get fs ''rating_max'')
      then [Cond ''p.rating'' LE (filters_get fs ''rating_max'')] else [])"

text \<open>\<^verbatim>\<open>kw.join(conditions)\<close> on clause text.\<close>

fun join_conds :: "where_item \<Rightarrow> sql_cond list \<Rightarrow> where_item list" where
  "join_conds kw [] = []"
| "join_conds kw [c] = [Atom c]"
| "join_conds kw (c # d # ds) = Atom c # kw # join_conds kw (d # ds)"

definition add_filters_to_sql :: "sql \<Rightarrow> filters \<Rightarrow> sql" where
  "add_filters_to_sql q fs =
     (if fs = [] then q
      else let filter_conds = filter_conditions fs
           in if filter_conds \<noteq> [] then
                (case q of
                   Some ts \<Rightarrow> Some (ts @ Kw_AND # join_conds Kw_AND filter_conds)
                 | None \<Rightarrow> Some (join_conds Kw_AND filter_conds))
              else q)"

text \<open>\<^verbatim>\<open>if filters: sql, params = self._add_filters_to_sql(sql, params, filters)\<close>.\<close>

definition with_filters :: "sql \<Rightarrow> filters option \<Rightarrow> sql" where
  "with_filters q filters =
     (case filters of
        None \<Rightarrow> q
      | Some fs \<Rightarrow> if fs \<noteq> [] then add_filters_to_sql q fs else q)"

text \<open>
  \<^verbatim>\<open>field_mapping.get(field)\<close>: \<^verbatim>\<open>None\<close> for the description, whose entry is
  \<^verbatim>\<open>None\<close>, and for a field that is not a key of the mapping.
\<close>

definition get_field_value :: "row \<Rightarrow> string \<Rightarrow> string option" where
  "get_field_value r field =
     (case map_of
             [(''human_name'', c1 r),
              (''description'', None),
              (''category'', c2 r),
              (''subcategory'', c3 r),
              (''developer'', c4 r),
              (''publisher'', c5 r),
              (''tags'', c6 r),
              (''bundle_name'', c10 r)] field of
        None \<Rightarrow> None
      | Some v \<Rightarrow> v)"

text \<open>\<^verbatim>\<open>field_value and pattern.search(str(field_value))\<close>.\<close>

definition value_matches :: "regex_lib \<Rightarrow> bool \<Rightarrow> string \<Rightarrow> string option \<Rightarrow> bool" where
  "value_matches re ic pattern field_value =
     (case field_value of
        None \<Rightarrow> False
      | Some s \<Rightarrow> s \<noteq> [] \<and> re_search re ic pattern s)"

definition row_matches_regex :: "regex_lib \<Rightarrow> bool \<Rightarrow> string \<Rightarrow> row \<Rightarrow> bool" where
  "row_matches_regex re ic pattern r =
     list_ex (\<lambda>field. value_matches re ic pattern (get_field_value r field)) searchable_fields"

type_synonym asset = "(string \<times> sqlval) list"

definition format_row :: "row \<Rightarrow> asset" where
  "format_row r =
     [(''product_id'', text_val (c0 r)),
      (''human_name'', text_val (c1 r)),
      (''category'', text_val (c2 r)),
      (''subcategory'', text_val (c3 r)),
      (''developer'', text_val (c4 r)),
      (''publisher'', text_val (c5 r)),
      (''tags'', text_val (c6 r)),
      (''rating'', num_val (c7 r)),
      (''release_date'', text_val (c8 r)),
      (''source_name'', text_val (c9 r)),
      (''bundle_name'', text_val (c10 r)),
      (''platform'', text_val (c11 r)),
      (''download_type'', text_val (c12 r)),
      (''file_size_display'', text_val (c13 r))]"

definition format_results :: "row list \<Rightarrow> asset list" where
  "format_results results = map format_row results"

text \<open>
  A search returns its result or raises, and it may have sent statements to the store:
  the second component lists them.
\<close>

type_synonym search_outcome = "(error + asset list) \<times> sql list"

definition run_query :: "conn \<Rightarrow> sql \<Rightarrow> (row list \<Rightarrow> row list) \<Rightarrow> search_outcome" where
  "run_query cn q post =
     (case execute cn q of
        Inl e \<Rightarrow> (Inl e, [q])
      | Inr results \<Rightarrow> (Inr (format_results (post results)), [q]))"

definition like_param :: "string \<Rightarrow> sqlval" where
  "like_param query = Text (''%'' @ query @ ''%'')"

definition search_with_text :: "conn \<Rightarrow> string \<Rightarrow> filters option \<Rightarrow> search_outcome" where
  "search_with_text cn query filters =
     run_query cn
       (with_filters
          (Some [Paren_or [Cond ''p.human_name'' ILIKE (like_param query),
                           Cond ''p.description'' ILIKE (like_param query),
                           Cond ''p.tags'' ILIKE (like_param query)]])
          filters)
       (\<lambda>results. results)"

definition search_with_regex ::
  "regex_lib \<Rightarrow> conn \<Rightarrow> string \<Rightarrow> filters option \<Rightarrow> bool \<Rightarrow> search_outcome" where
  "search_with_regex re cn query filters case_sensitive =
     (if \<not> validate_regex re query
      then (Inl (ValueError (''Invalid regex pattern: '' @ query)), [])
      else run_query cn (with_filters None filters)
             (filter (row_matches_regex re (\<not> case_sensitive) query)))"





definition quote :: "string \<Rightarrow> string" where
  "quote s = [CHR 0x27] @ s @ [CHR 0x27]"


definition search_assets ::
  "regex_lib \<Rightarrow> conn \<Rightarrow> string \<Rightarrow> filters option \<Rightarrow> bool \<Rightarrow> bool \<Rightarrow> search_outcome" where
  "search_assets re cn query filters use_regex case_sensitive =
     (if use_regex then search_with_regex re cn query filters case_sensitive
      else search_with_text cn query filters)"





subsection \<open>Statistics\<close>

text \<open>
  The values of the dict that \<^verbatim>\<open>get_search_stats\<close> returns. The time stamp
  \<^verbatim>\<open>datetime.now().isoformat()\<close> is an argument.
\<close>

datatype stat = Val sqlval | Names "string list" | Dicts "(string \<times> sqlval) list list"

type_synonym stats_dict = "(string \<times> stat) list"

fun error_str :: "error \<Rightarrow> string" where
  "error_str (ValueError m) = m"
| "error_str (StoreError m) = m"
| "error_str (TypeError m) = m"
| "error_str (IndexError m) = m"

definition run_stats :: "conn \<Rightarrow> stats_sql \<Rightarrow> error + sqlval list list" where
  "run_stats cn q = (case stats cn q of Inl msg \<Rightarrow> Inl (StoreError msg) | Inr rs \<Rightarrow> Inr rs)"

text \<open>\<^verbatim>\<open>.fetchone()[0]\<close>: \<^verbatim>\<open>fetchone\<close> gives \<^verbatim>\<open>None\<close> when there is no row.\<close>

definition fetchone_0 :: "sqlval list list \<Rightarrow> error + sqlval" where
  "fetchone_0 rs =
     (case rs of
        [] \<Rightarrow> Inl (TypeError (quote ''NoneType'' @ '' object is not subscriptable''))
      | r # rest \<Rightarrow>
          (case r of
             [] \<Rightarrow> Inl (IndexError ''tuple index out of range'')
           | v # vs \<Rightarrow> Inr v))"

text \<open>\<^verbatim>\<open>[{k0: row[0], k1: row[1]} for row in rows]\<close>.\<close>

fun pair_dicts :: "string \<Rightarrow> string \<Rightarrow> sqlval list list \<Rightarrow> error + (string \<times> sqlval) list list" where
  "pair_dicts k0 k1 [] = Inr []"
| "pair_dicts k0 k1 (r # rs) =
     (case r of
        v0 # v1 # vs \<Rightarrow>
          (case pair_dicts k0 k1 rs of
             Inl e \<Rightarrow> Inl e
           | Inr ds \<Rightarrow> Inr ([(k0, v0), (k1, v1)] # ds))
      | _ \<Rightarrow> Inl (IndexError ''tuple index out of range''))"

text \<open>The body of the \<^verbatim>\<open>try\<close> block.\<close>

definition stats_try :: "conn \<Rightarrow> string \<Rightarrow> error + stats_dict" where
  "stats_try cn now =
     (case run_stats cn Count_products of Inl e \<Rightarrow> Inl e | Inr r1 \<Rightarrow>
      case fetchone_0 r1 of Inl e \<Rightarrow> Inl e | Inr total_products \<Rightarrow>
      case run_stats cn Count_bundles of Inl e \<Rightarrow> Inl e | Inr r2 \<Rightarrow>
      case fetchone_0 r2 of Inl e \<Rightarrow> Inl e | Inr total_bundles \<Rightarrow>
      case run_stats cn Category_counts of Inl e \<Rightarrow> Inl e | Inr category_stats \<Rightarrow>
      case run_stats cn Source_counts of Inl e \<Rightarrow> Inl e | Inr source_stats \<Rightarrow>
      case pair_dicts ''category'' ''count'' category_stats of Inl e \<Rightarrow> Inl e | Inr cd \<Rightarrow>
      case pair_dicts ''source'' ''count'' source_stats of Inl e \<Rightarrow> Inl e | Inr sd \<Rightarrow>
        Inr [(''total_products'', Val total_products),
             (''total_bundles'', Val total_bundles),
             (''category_distribution'', Dicts cd),
             (''source_distribution'', Dicts sd),
             (''searchable_fields'', Names searchable_fields),
             (''last_updated'', Val (Text now))])"

text \<open>\<^verbatim>\<open>except Exception as e\<close> turns every failure of the body into the error dict.\<close>

definition get_search_stats :: "conn \<Rightarrow> string \<Rightarrow> error + stats_dict" where
  "get_search_stats cn now =
     (case stats_try cn now of
        Inr d \<Rightarrow> Inr d
      | Inl e \<Rightarrow>
          Inr [(''error'', Val (Text (error_str e))),
               (''searchable_fields'', Names searchable_fields),
               (''last_updated'', Val (Text now))])"

subsection \<open>Notions used by the properties\<close>

text \<open>The conditions that the statement of a regex search carries for a filter argument.\<close>

definition active_conditions :: "filters option \<Rightarrow> sql_cond list" where
  "active_conditions filters = (case filters of None \<Rightarrow> [] | Some fs \<Rightarrow> filter_conditions fs)"

text \<open>
  The compiled pattern matches a field of a stored record: the field has a value and the
  pattern is found in it. A record matches in a searchable field when this holds for one
  of the eight fields of the searchable-field list.
\<close>

definition pattern_matches_field :: "regex_lib \<Rightarrow> bool \<Rightarrow> string \<Rightarrow> string option \<Rightarrow> bool" where
  "pattern_matches_field re ic pattern v =
     (case v of None \<Rightarrow> False | Some s \<Rightarrow> re_search re ic pattern s)"

definition matches_searchable_field :: "regex_lib \<Rightarrow> bool \<Rightarrow> string \<Rightarrow> joined \<Rightarrow> bool" where
  "matches_searchable_field re ic pattern j =
     list_ex (pattern_matches_field re ic pattern)
       [p_human_name j, p_description j, p_category j, p_subcategory j, p_developer j,
        p_publisher j, p_tags j, b_bundle_name j]"





section \<open>Fixtures\<close>

text \<open>
  Rules with literal patterns, for which \<open>literal_re\<close> is exact, an engine holding them,
  and a rule with a required and an exclusion pattern.
\<close>

definition literal_rules :: "CategoryRule list" where
  "literal_rules =
     [ new_rule ''ebook_keywords'' EBOOK ''general'' [''book'', ''guide''] 1.0
         [(''name'', 0.8), (''human_name'', 0.8), (''description'', 0.3)],
       new_rule ''ebook_programming'' EBOOK ''programming'' [''python''] 1.2
         [(''name'', 0.9), (''human_name'', 0.9)],
       new_rule ''game_keywords'' GAME ''general'' [''game'', ''quest''] 1.0
         [(''name'', 0.8), (''human_name'', 0.8), (''description'', 0.3)] ]"

definition literal_engine :: CategorizationEngine where
  "literal_engine =
     \<lparr> matchers = [PatternMatcher literal_rules], rules = literal_rules,
       pattern_matcher = PatternMatcher literal_rules \<rparr>"

definition gated_rule :: CategoryRule where
  "gated_rule =
     (new_rule ''ebook_guides'' EBOOK ''general'' [''python''] 1.0 [(''name'', 0.8), (''human_name'', 0.8)])
       \<lparr> required_patterns := Some [''guide''], exclusion_patterns := Some [''free''] \<rparr>"

text \<open>A store with three products, and the same store without the table of bundles.\<close>

definition new_joined ::
  "string \<Rightarrow> string \<Rightarrow> string option \<Rightarrow> string \<Rightarrow> string option \<Rightarrow> real option \<Rightarrow> joined" where
  "new_joined pid nm descr cat dev rating =
     \<lparr> p_product_id = Some pid, p_human_name = Some nm, p_description = descr,
       p_category = Some cat, p_subcategory = Some ''general'', p_developer = dev,
       p_publisher = None, p_tags = None, p_rating = rating, p_release_date = None,
       a_source_name = Some ''Humble Bundle'', b_bundle_name = None, d_platform = None,
       d_download_type = None, d_file_size_display = None \<rparr>"

definition tetris :: joined where
  "tetris = new_joined ''p1'' ''Tetris'' (Some ''Sandbox of falling blocks'') ''game'' (Some []) (Some 4.5)"

definition catalog :: "joined list" where
  "catalog =
     [ tetris,
       new_joined ''p2'' ''Code Editor'' None ''software'' (Some ''Acme'') None,
       new_joined ''p3'' ''Atlas'' (Some ''Maps'') ''ebook'' (Some ''Acme'') (Some 3) ]"

definition contains_ilike :: "string \<Rightarrow> string \<Rightarrow> bool" where
  "contains_ilike v pat = str_in (lower (filter (\<lambda>c. c \<noteq> CHR ''%'') pat)) (lower v)"

definition store :: conn where
  "store =
     \<lparr> search_rows = Inr catalog,
       ilike = contains_ilike,
       stats = (\<lambda>q. case q of
                  Count_products \<Rightarrow> Inr [[Number 3]]
                | Count_bundles \<Rightarrow> Inr [[Number 0]]
                | Category_counts \<Rightarrow>
                    Inr [[Text ''ebook'', Number 1], [Text ''game'', Number 1],
                         [Text ''software'', Number 1]]
                | Source_counts \<Rightarrow> Inr [[Text ''Humble Bundle'', Number 3]]) \<rparr>"

definition store_without_bundles :: conn where
  "store_without_bundles =
     store\<lparr> stats := (\<lambda>q. case q of
                  Count_bundles \<Rightarrow> Inl ''Catalog Error: Table with name bundles does not exist''
                | _ \<Rightarrow> stats store q) \<rparr>"

section \<open>Properties of the categorization engine\<close>

subsection \<open>Auxiliary facts\<close>

lemma inner_fold_zero:
  "\<forall>(f, w)\<in>set fws. \<not> P f \<Longrightarrow>
   fold (\<lambda>(field, field_weight) total_score. if P field then total_score + c * field_weight else total_score) fws t = (t::real)"
  by (induction fws arbitrary: t) auto

lemma score_patterns_zero:
  assumes "\<forall>pattern\<in>set (patterns rule). \<forall>field. \<not> field_matches re pattern item field"
  shows "score_patterns re rule item = 0"
proof -
  have "fold (\<lambda>pattern total_score.
        fold (\<lambda>(field, field_weight) total_score.
           if field_matches re pattern item field
           then total_score + weight rule * field_weight
           else total_score)
          (field_weights rule) total_score) ps t = t" if "set ps \<subseteq> set (patterns rule)" for ps and t :: real
    using that
  proof (induction ps arbitrary: t)
    case Nil
    then show ?case by simp
  next
    case (Cons p ps)
    then have "\<forall>(f, w)\<in>set (field_weights rule). \<not> field_matches re p item f"
      using assms by auto
    from inner_fold_zero[OF this] Cons show ?case by simp
  qed
  then show ?thesis by (simp add: score_patterns_def)
qed

lemma score_rule_zero:
  "\<forall>pattern\<in>set (patterns rule). \<forall>field. \<not> field_matches re pattern item field \<Longrightarrow> score_rule re rule item = 0"
  by (simp add: score_rule_def score_rule_at_def score_patterns_zero)

lemma pattern_match_fold_zero:
  "\<forall>rule\<in>set rs. score_rule re rule item = 0 \<Longrightarrow>
   fold (\<lambda>rule scores. scores(rule_category rule := scores (rule_category rule) + score_rule re rule item)) rs acc = acc"
  by (induction rs arbitrary: acc) auto

lemma pattern_match_zero:
  "\<forall>rule\<in>set rs. score_rule re rule item = 0 \<Longrightarrow> pattern_match re rs item = (\<lambda>cat. 0)"
  by (simp add: pattern_match_def pattern_match_fold_zero)

lemma aggregate_fold_zero:
  "\<forall>m\<in>set ms. match re m item = (\<lambda>cat. Some 0) \<Longrightarrow>
   fold (\<lambda>matcher all_scores. add_scores all_scores (match re matcher item)) ms acc = acc"
  by (induction ms arbitrary: acc) (auto simp: add_scores_def)

lemma py_max_zero: "py_max all_categories (\<lambda>cat. 0) = Inr EBOOK"
  by (simp add: py_max_def all_categories_def)




lemma pattern_match_sum:
  "pattern_match re rs item c = (\<Sum>rule\<leftarrow>filter (\<lambda>x. rule_category x = c) rs. score_rule re rule item)"
proof -
  have "fold (\<lambda>rule scores. scores(rule_category rule := scores (rule_category rule) + score_rule re rule item)) rs acc c
        = acc c + (\<Sum>rule\<leftarrow>filter (\<lambda>x. rule_category x = c) rs. score_rule re rule item)" for acc
    by (induction rs arbitrary: acc) auto
  then show ?thesis by (simp add: pattern_match_def)
qed


lemma categorize_returns:
  "categorize re eng item =
     Inr \<lparr> category = max_from (aggregate re (matchers eng) item) EBOOK (tl all_categories),
           subcategory = determine_subcategory (max_from (aggregate re (matchers eng) item) EBOOK (tl all_categories)) item,
           confidence = min (aggregate re (matchers eng) item (max_from (aggregate re (matchers eng) item) EBOOK (tl all_categories))) 1,
           method_used = join ''+'' (map type_name (matchers eng)),
           matched_rules = [],
           scores = aggregate re (matchers eng) item \<rparr>"
  by (simp add: categorize_def py_max_def all_categories_def Let_def)




lemma aggregate_no_match:
  assumes "\<forall>m\<in>set ms. \<exists>rs. m = PatternMatcher rs \<and>
             (\<forall>rule\<in>set rs. \<forall>pattern\<in>set (patterns rule). \<forall>field. \<not> field_matches re pattern item field)"
  shows "aggregate re ms item = (\<lambda>cat. 0)"
proof -
  have "match re m item = (\<lambda>cat. Some 0)" if "m \<in> set ms" for m
  proof -
    from assms that obtain rs where m: "m = PatternMatcher rs"
      and rs: "\<forall>rule\<in>set rs. \<forall>pattern\<in>set (patterns rule). \<forall>field. \<not> field_matches re pattern item field"
      by blast
    from rs have "\<forall>rule\<in>set rs. score_rule re rule item = 0" by (simp add: score_rule_zero)
    then show ?thesis using m by (simp add: pattern_match_zero)
  qed
  then show ?thesis
    by (simp add: aggregate_def aggregate_fold_zero)
qed

lemma field_matches_empty: "\<not> field_matches re pattern Map.empty field"
  by (simp add: field_matches_def)

subsection \<open>Rule gating\<close>

text \<open>
  C2. For every rule and item: when the rule has required patterns and one of them matches
  none of the four searchable fields of the item, \<^verbatim>\<open>_score_rule\<close> returns 0, and it returns
  from the required-pattern check; when the rule has exclusion patterns and one of them
  matches a searchable field, it returns 0 as well, whatever the scoring patterns match.
  The exclusion check comes second: the return inside it is reached only when every
  required pattern was found. The value of \<^verbatim>\<open>_score_rule\<close> is what the rule adds to its
  category: a category's score in \<^verbatim>\<open>match\<close> is the sum of the values of its rules.
\<close>

theorem score_rule_gates:
  "(\<forall>req. required_patterns rule = Some req \<and> (\<exists>p\<in>set req. \<not> matches_in_item re p item) \<longrightarrow>
      score_rule re rule item = 0 \<and> fst (score_rule_at re rule item) = Required_pattern_not_found)
   \<and> (\<forall>exc. exclusion_patterns rule = Some exc \<and> (\<exists>p\<in>set exc. matches_in_item re p item) \<longrightarrow>
      score_rule re rule item = 0)
   \<and> (fst (score_rule_at re rule item) = Exclusion_pattern_found \<longrightarrow>
        (\<forall>req. required_patterns rule = Some req \<longrightarrow> (\<forall>p\<in>set req. matches_in_item re p item)))
   \<and> (\<forall>rs c. pattern_match re rs item c =
        (\<Sum>x\<leftarrow>filter (\<lambda>x. rule_category x = c) rs. score_rule re x item))"
proof -
  have req_gate: "score_rule re rule item = 0 \<and> fst (score_rule_at re rule item) = Required_pattern_not_found"
    if "required_patterns rule = Some req" and "\<exists>p\<in>set req. \<not> matches_in_item re p item" for req
  proof -
    from that have "req \<noteq> [] \<and> list_ex (\<lambda>pattern. \<not> matches_in_item re pattern item) req"
      by (auto simp: list_ex_iff)
    with that show ?thesis by (simp add: score_rule_def score_rule_at_def)
  qed
  have exc_gate: "score_rule re rule item = 0"
    if "exclusion_patterns rule = Some exc" and "\<exists>p\<in>set exc. matches_in_item re p item" for exc
  proof -
    from that have "exc \<noteq> [] \<and> list_ex (\<lambda>pattern. matches_in_item re pattern item) exc"
      by (auto simp: list_ex_iff)
    with that show ?thesis by (simp add: score_rule_def score_rule_at_def)
  qed
  have order: "matches_in_item re p item"
    if "fst (score_rule_at re rule item) = Exclusion_pattern_found"
      and "required_patterns rule = Some req" and "p \<in> set req" for req p
    using that by (auto simp: score_rule_at_def list_ex_iff split: if_splits)
  from req_gate exc_gate order pattern_match_sum show ?thesis by blast
qed

theorem score_rule_gates_witness:
  "score_rule literal_re gated_rule [''name'' \<mapsto> PyStr ''Free Python''] = 0
   \<and> fst (score_rule_at literal_re gated_rule [''name'' \<mapsto> PyStr ''Free Python'']) = Required_pattern_not_found
   \<and> matches_in_item literal_re ''free'' [''name'' \<mapsto> PyStr ''Free Python'']
   \<and> score_rule literal_re gated_rule [''name'' \<mapsto> PyStr ''Free Python Guide''] = 0
   \<and> fst (score_rule_at literal_re gated_rule [''name'' \<mapsto> PyStr ''Free Python Guide'']) = Exclusion_pattern_found
   \<and> matches_in_item literal_re ''guide'' [''name'' \<mapsto> PyStr ''Free Python Guide'']
   \<and> score_patterns literal_re gated_rule [''name'' \<mapsto> PyStr ''Free Python Guide''] = 0.8
   \<and> pattern_match literal_re [gated_rule] [''name'' \<mapsto> PyStr ''Free Python Guide''] EBOOK = 0"
proof -
  have r: "required_patterns gated_rule = Some [''guide'']"
    and e: "exclusion_patterns gated_rule = Some [''free'']"
    and c: "rule_category gated_rule = EBOOK"
    by (simp_all add: gated_rule_def new_rule_def)
  have m1: "\<not> matches_in_item literal_re ''guide'' [''name'' \<mapsto> PyStr ''Free Python'']"
    and m2: "matches_in_item literal_re ''free'' [''name'' \<mapsto> PyStr ''Free Python'']"
    and m3: "matches_in_item literal_re ''free'' [''name'' \<mapsto> PyStr ''Free Python Guide'']"
    and m4: "matches_in_item literal_re ''guide'' [''name'' \<mapsto> PyStr ''Free Python Guide'']"
    and s: "score_patterns literal_re gated_rule [''name'' \<mapsto> PyStr ''Free Python Guide''] = 0.8"
    and x: "fst (score_rule_at literal_re gated_rule [''name'' \<mapsto> PyStr ''Free Python Guide'']) = Exclusion_pattern_found"
    by code_simp+
  note g1 = score_rule_gates [of gated_rule literal_re "[''name'' \<mapsto> PyStr ''Free Python'']"]
  note g2 = score_rule_gates [of gated_rule literal_re "[''name'' \<mapsto> PyStr ''Free Python Guide'']"]
  from g1 r m1 have "score_rule literal_re gated_rule [''name'' \<mapsto> PyStr ''Free Python''] = 0
      \<and> fst (score_rule_at literal_re gated_rule [''name'' \<mapsto> PyStr ''Free Python'']) = Required_pattern_not_found"
    by simp
  moreover from g2 e m3 have z: "score_rule literal_re gated_rule [''name'' \<mapsto> PyStr ''Free Python Guide''] = 0"
    by simp
  moreover from g2 z c have "pattern_match literal_re [gated_rule] [''name'' \<mapsto> PyStr ''Free Python Guide''] EBOOK = 0"
    by simp
  ultimately show ?thesis using m2 m4 s x by simp
qed

subsection \<open>Items that match nothing\<close>

text \<open>
  C1, as the code has it. For an engine whose matchers are pattern matchers (what the
  constructor and \<^verbatim>\<open>add_rule\<close> build) and an item in which no pattern of any rule matches
  any field, missing and empty fields included, \<^verbatim>\<open>categorize\<close> returns a result, every
  category's aggregate score is 0 and the confidence is 0. The category of the result is
  \<^verbatim>\<open>ebook\<close>, the first member of the enumeration: all nine scores are equal, and
  \<^verbatim>\<open>max\<close> keeps the first key among equals.
\<close>

theorem categorize_no_match:
  assumes "\<forall>m\<in>set (matchers eng). \<exists>rs. m = PatternMatcher rs \<and>
             (\<forall>rule\<in>set rs. \<forall>pattern\<in>set (patterns rule). \<forall>field. \<not> field_matches re pattern item field)"
  shows "\<exists>r. categorize re eng item = Inr r \<and> (\<forall>cat. scores r cat = 0) \<and> confidence r = 0
            \<and> category r = EBOOK"
proof -
  from assms have agg: "aggregate re (matchers eng) item = (\<lambda>cat. 0)"
    by (rule aggregate_no_match)
  show ?thesis unfolding categorize_returns agg by (simp add: all_categories_def)
qed

theorem categorize_no_match_witness:
  "\<exists>r. categorize literal_re literal_engine [''name'' \<mapsto> PyStr ''Untitled'', ''description'' \<mapsto> PyNone] = Inr r
      \<and> (\<forall>cat. scores r cat = 0) \<and> confidence r = 0 \<and> category r = EBOOK"
proof -
  have "list_all (\<lambda>p. \<not> re_search literal_re True p (lower ''Untitled''))
          [''book'', ''guide'', ''python'', ''game'', ''quest'']"
    by code_simp
  then have h: "\<forall>m\<in>set (matchers literal_engine). \<exists>rs. m = PatternMatcher rs \<and>
       (\<forall>rule\<in>set rs. \<forall>pattern\<in>set (patterns rule). \<forall>field.
          \<not> field_matches literal_re pattern [''name'' \<mapsto> PyStr ''Untitled'', ''description'' \<mapsto> PyNone] field)"
    by (auto simp: literal_engine_def literal_rules_def new_rule_def field_matches_def
          split: if_splits)
  show ?thesis by (rule categorize_no_match [OF h])
qed

text \<open>
  The claim C1 names \<^verbatim>\<open>unknown\<close> as the category of such a result. For the engine built
  by the constructor and the empty item the category is \<^verbatim>\<open>ebook\<close>. (No field is
  present, so no regular expression is evaluated.)
\<close>

theorem categorize_empty_item_not_unknown:
  "map_sum id category (categorize literal_re CategorizationEngine_init Map.empty) = Inr EBOOK
   \<and> map_sum id category (categorize literal_re CategorizationEngine_init Map.empty) \<noteq> Inr UNKNOWN"
proof -
  have "aggregate literal_re (matchers CategorizationEngine_init) Map.empty = (\<lambda>cat. 0)"
    by (rule aggregate_no_match) (simp add: CategorizationEngine_init_def field_matches_empty)
  then show ?thesis by (simp add: categorize_returns all_categories_def)
qed

subsection \<open>Confidence\<close>



subsection \<open>Choice of the category\<close>



subsection \<open>Matched rules\<close>

text \<open>
  C8. \<^verbatim>\<open>categorize\<close> creates the list \<^verbatim>\<open>matched_rules\<close> empty and returns it without
  ever appending to it. Here the rule \<^verbatim>\<open>ebook_keywords\<close> scores 0.8 on the item, and
  the list of matched rules of the result is empty.
\<close>

theorem matched_rules_never_filled:
  "map_sum id matched_rules (categorize literal_re literal_engine [''name'' \<mapsto> PyStr ''Python Guide''])
     = Inr []
   \<and> name (literal_rules ! 0) = ''ebook_keywords''
   \<and> score_rule literal_re (literal_rules ! 0) [''name'' \<mapsto> PyStr ''Python Guide''] = 0.8"
  by code_simp

section \<open>Properties of the search provider\<close>

subsection \<open>Auxiliary facts\<close>

lemma split_or_no_or: "Kw_OR \<notin> set ts \<Longrightarrow> split_or ts = [ts]"
proof (induction ts)
  case Nil
  then show ?case by simp
next
  case (Cons t ts)
  then show ?case by (cases t) simp_all
qed

lemma join_conds_and_no_or: "Kw_OR \<notin> set (join_conds Kw_AND cs)"
  by (induction Kw_AND cs rule: join_conds.induct) simp_all

lemma join_conds_and_holds:
  "list_all (item_holds lk j) (join_conds Kw_AND cs) = list_all (holds lk j) cs"
  by (induction Kw_AND cs rule: join_conds.induct) simp_all

lemma join_conds_and_conds: "concat (map item_conds (join_conds Kw_AND cs)) = cs"
  by (induction Kw_AND cs rule: join_conds.induct) simp_all

lemma with_filters_None:
  "with_filters None filters =
     (if active_conditions filters = [] then None
      else Some (join_conds Kw_AND (active_conditions filters)))"
  by (auto simp: with_filters_def add_filters_to_sql_def active_conditions_def Let_def
        filter_conditions_def filters_get_def split: option.splits)

lemma where_holds_filters:
  "where_holds lk (with_filters None filters) j = list_all (holds lk j) (active_conditions filters)"
  by (simp add: with_filters_None where_holds_def split_or_no_or join_conds_and_no_or
        join_conds_and_holds)

lemma where_holds_filters_fun:
  "where_holds lk (with_filters None filters) = (\<lambda>j. list_all (holds lk j) (active_conditions filters))"
  by (rule ext) (rule where_holds_filters)

lemma filter_conditions_columns:
  "cnd \<in> set (filter_conditions fs) \<Longrightarrow> cond_column cnd \<in> set known_columns"
  by (auto simp: filter_conditions_def known_columns_def split: if_splits)

lemma resolves_filters: "resolves (with_filters None filters)"
proof -
  have "cnd \<in> set (active_conditions filters) \<Longrightarrow> cond_column cnd \<in> set known_columns" for cnd
    by (auto simp: active_conditions_def split: option.splits dest: filter_conditions_columns)
  then show ?thesis
    by (simp add: with_filters_None resolves_def join_conds_and_conds list_all_iff)
qed

lemma execute_filters:
  "execute cn (with_filters None filters) =
     (case search_rows cn of
        Inl msg \<Rightarrow> Inl (StoreError msg)
      | Inr js \<Rightarrow>
          Inr (map select_row (order_by_human_name
                 (filter (\<lambda>j. list_all (holds (ilike cn) j) (active_conditions filters)) js))))"
  by (simp add: execute_def resolves_filters where_holds_filters_fun split: sum.splits)


lemma row_matches_regex_seven:
  "row_matches_regex re ic pattern (select_row j) =
     (\<exists>v\<in>set [p_human_name j, p_category j, p_subcategory j, p_developer j, p_publisher j,
               p_tags j, b_bundle_name j]. value_matches re ic pattern v)"
  by (auto simp: row_matches_regex_def searchable_fields_def get_field_value_def select_row_def
        value_matches_def)

lemma text_val_inj: "text_val a = text_val b \<Longrightarrow> a = b"
  by (auto simp: text_val_def split: option.splits)

lemma num_val_inj: "num_val a = num_val b \<Longrightarrow> a = b"
  by (auto simp: num_val_def split: option.splits)

lemma format_row_inj: "format_row r = format_row r' \<Longrightarrow> r = r'"
  by (cases r; cases r') (auto simp: format_row_def dest: text_val_inj num_val_inj)

lemma search_with_regex_result:
  assumes "re_valid re query" and "search_rows cn = Inr js"
  shows "search_with_regex re cn query filters cs =
     (Inr (format_results (filter (row_matches_regex re (\<not> cs) query)
        (map select_row (order_by_human_name
           (filter (\<lambda>j. list_all (holds (ilike cn) j) (active_conditions filters)) js))))),
      [with_filters None filters])"
  using assms by (simp add: search_with_regex_def validate_regex_def run_query_def execute_filters)















lemma store_rows: "search_rows store = Inr catalog"
  by (simp add: store_def)

subsection \<open>Regex search over all fields\<close>

text \<open>
  C5, as the code has it. In regex mode \<^verbatim>\<open>search_assets\<close> tests the rows that the
  store returns for the filters. For a stored record that passes the filters and whose
  description the pattern does not match, the record is in the result if and only if
  the compiled pattern is found in a non-empty value of one of the seven other
  searchable fields: \<^verbatim>\<open>human_name\<close>, \<^verbatim>\<open>category\<close>, \<^verbatim>\<open>subcategory\<close>, \<^verbatim>\<open>developer\<close>,
  \<^verbatim>\<open>publisher\<close>, \<^verbatim>\<open>tags\<close>, \<^verbatim>\<open>bundle_name\<close>. A value that is \<^verbatim>\<open>NULL\<close> or the empty
  string is skipped by the guard \<^verbatim>\<open>if field_value and ...\<close> before the pattern is tried.
\<close>

theorem regex_search_includes:
  assumes "re_valid re query" and "search_rows cn = Inr js" and "j \<in> set js"
    and "list_all (holds (ilike cn) j) (active_conditions filters)"
    and "\<not> pattern_matches_field re (\<not> cs) query (p_description j)"
  shows "\<exists>results. fst (search_assets re cn query filters True cs) = Inr results \<and>
           (format_row (select_row j) \<in> set results \<longleftrightarrow>
              (\<exists>v\<in>set [p_human_name j, p_category j, p_subcategory j, p_developer j,
                        p_publisher j, p_tags j, b_bundle_name j].
                 value_matches re (\<not> cs) query v))"
proof -
  let ?kept = "filter (\<lambda>j. list_all (holds (ilike cn) j) (active_conditions filters)) js"
  let ?rows = "map select_row (order_by_human_name ?kept)"
  let ?results = "format_results (filter (row_matches_regex re (\<not> cs) query) ?rows)"
  have res: "fst (search_assets re cn query filters True cs) = Inr ?results"
    using assms(1,2) by (simp add: search_assets_def search_with_regex_result)
  have rows: "select_row j \<in> set ?rows"
    using assms(3,4) by (simp add: order_by_human_name_def)
  have "format_row (select_row j) \<in> set ?results \<longleftrightarrow>
          row_matches_regex re (\<not> cs) query (select_row j)"
  proof
    assume "format_row (select_row j) \<in> set ?results"
    then have "\<exists>r. row_matches_regex re (\<not> cs) query r \<and> format_row (select_row j) = format_row r"
      by (auto simp: format_results_def)
    then show "row_matches_regex re (\<not> cs) query (select_row j)"
      using format_row_inj by metis
  next
    assume "row_matches_regex re (\<not> cs) query (select_row j)"
    with rows show "format_row (select_row j) \<in> set ?results"
      by (simp add: format_results_def)
  qed
  then show ?thesis using res by (simp add: row_matches_regex_seven)
qed

theorem regex_search_includes_witness:
  "\<exists>results. fst (search_assets literal_re store ''acme'' (Some [(''category'', Text ''software'')]) True False)
       = Inr results
     \<and> format_row (select_row (catalog ! 1)) \<in> set results
     \<and> value_matches literal_re True ''acme'' (p_developer (catalog ! 1))"
proof -
  have v: "re_valid literal_re ''acme''" by code_simp
  have j: "catalog ! 1 \<in> set catalog" by (simp add: catalog_def)
  have f: "list_all (holds (ilike store) (catalog ! 1))
             (active_conditions (Some [(''category'', Text ''software'')]))"
    by code_simp
  have d: "\<not> pattern_matches_field literal_re (\<not> False) ''acme'' (p_description (catalog ! 1))"
    by code_simp
  have m: "value_matches literal_re True ''acme'' (p_developer (catalog ! 1))"
    by code_simp
  from regex_search_includes [OF v store_rows j f d] m show ?thesis by auto
qed

text \<open>
  The claim C5 counts every field that the pattern matches. The pattern \<^verbatim>\<open>^$\<close> matches
  the developer of the first product of the store, which is the empty string, and the
  search in regex mode does not return the product.
\<close>

theorem regex_search_skips_empty_value:
  "search_rows store = Inr catalog \<and> hd catalog = tetris
   \<and> p_developer tetris = Some []
   \<and> matches_searchable_field literal_re True ''^$'' tetris
   \<and> fst (search_assets literal_re store ''^$'' None True False) = Inr []"
proof -
  have "matches_searchable_field literal_re True ''^$'' tetris"
    and "fst (search_assets literal_re store ''^$'' None True False) = Inr []"
    by code_simp+
  then show ?thesis by (simp add: store_def catalog_def tetris_def new_joined_def)
qed

subsection \<open>Unknown field names\<close>




subsection \<open>Filters and regex\<close>




subsection \<open>Statistics never raise\<close>

text \<open>
  C9. \<^verbatim>\<open>get_search_stats\<close> returns a dict for every store. When the body of its
  \<^verbatim>\<open>try\<close> block fails, as it does whenever one of the four queries raises, the dict has
  the keys \<^verbatim>\<open>error\<close>, \<^verbatim>\<open>searchable_fields\<close> and \<^verbatim>\<open>last_updated\<close>: the message under
  \<^verbatim>\<open>error\<close>, the searchable-field list, and no count or distribution. Otherwise it is
  the dict of the body, with the six keys of the normal shape and no key \<^verbatim>\<open>error\<close>.
\<close>

theorem get_search_stats_total:
  "\<exists>d. get_search_stats cn now = Inr d
     \<and> ((\<exists>e. stats_try cn now = Inl e) \<longrightarrow>
          (\<exists>m. map fst d = [''error'', ''searchable_fields'', ''last_updated'']
             \<and> map_of d ''error'' = Some (Val (Text m))
             \<and> map_of d ''searchable_fields'' = Some (Names searchable_fields)))
     \<and> ((\<exists>q msg. stats cn q = Inl msg) \<longrightarrow> (\<exists>e. stats_try cn now = Inl e))
     \<and> ((\<exists>d0. stats_try cn now = Inr d0) \<longrightarrow>
          stats_try cn now = Inr d
          \<and> map fst d = [''total_products'', ''total_bundles'', ''category_distribution'',
                         ''source_distribution'', ''searchable_fields'', ''last_updated'']
          \<and> map_of d ''error'' = None)"
proof -
  have fail: "\<exists>e. stats_try cn now = Inl e" if "stats cn q = Inl msg" for q msg
    using that by (cases q) (auto simp: stats_try_def run_stats_def split: sum.splits)
  have ok: "map fst d0 = [''total_products'', ''total_bundles'', ''category_distribution'',
                         ''source_distribution'', ''searchable_fields'', ''last_updated'']
            \<and> map_of d0 ''error'' = None" if "stats_try cn now = Inr d0" for d0
    using that by (auto simp: stats_try_def split: sum.splits)
  show ?thesis
  proof (cases "stats_try cn now")
    case (Inl e)
    then show ?thesis using fail by (auto simp: get_search_stats_def)
  next
    case (Inr d0)
    then show ?thesis using fail ok by (auto simp: get_search_stats_def)
  qed
qed

theorem get_search_stats_total_witness:
  "get_search_stats store_without_bundles ''2024-01-01T00:00:00'' =
     Inr [(''error'', Val (Text ''Catalog Error: Table with name bundles does not exist'')),
          (''searchable_fields'', Names searchable_fields),
          (''last_updated'', Val (Text ''2024-01-01T00:00:00''))]
   \<and> (\<exists>d. get_search_stats store ''2024-01-01T00:00:00'' = Inr d
          \<and> map fst d = [''total_products'', ''total_bundles'', ''category_distribution'',
                         ''source_distribution'', ''searchable_fields'', ''last_updated'']
          \<and> map_of d ''error'' = None)"
proof -
  define now where "now = ''2024-01-01T00:00:00''"
  have q: "\<exists>q msg. stats store_without_bundles q = Inl msg"
  proof (intro exI)
    show "stats store_without_bundles Count_bundles
            = Inl ''Catalog Error: Table with name bundles does not exist''"
      by (simp add: store_without_bundles_def)
  qed
  from get_search_stats_total [of store_without_bundles now]
  obtain d where d: "get_search_stats store_without_bundles now = Inr d"
    and f: "(\<exists>e. stats_try store_without_bundles now = Inl e) \<longrightarrow>
          (\<exists>m. map fst d = [''error'', ''searchable_fields'', ''last_updated'']
             \<and> map_of d ''error'' = Some (Val (Text m))
             \<and> map_of d ''searchable_fields'' = Some (Names searchable_fields))"
    and g: "(\<exists>q msg. stats store_without_bundles q = Inl msg) \<longrightarrow>
              (\<exists>e. stats_try store_without_bundles now = Inl e)"
    by (elim exE conjE)
  from q g have "\<exists>e. stats_try store_without_bundles now = Inl e" by (rule rev_mp)
  with f have keys: "\<exists>m. map fst d = [''error'', ''searchable_fields'', ''last_updated'']
             \<and> map_of d ''error'' = Some (Val (Text m))
             \<and> map_of d ''searchable_fields'' = Some (Names searchable_fields)"
    by (rule rev_mp [rotated])
  have e: "get_search_stats store_without_bundles ''2024-01-01T00:00:00'' =
     Inr [(''error'', Val (Text ''Catalog Error: Table with name bundles does not exist'')),
          (''searchable_fields'', Names searchable_fields),
          (''last_updated'', Val (Text ''2024-01-01T00:00:00''))]"
    by code_simp
  have "\<not> isl (stats_try store ''2024-01-01T00:00:00'')"
    by code_simp
  then have ok: "\<exists>d0. stats_try store now = Inr d0"
    unfolding now_def by (cases "stats_try store ''2024-01-01T00:00:00''") simp_all
  from get_search_stats_total [of store now]
  obtain d' where d': "get_search_stats store now = Inr d'"
    and h: "(\<exists>d0. stats_try store now = Inr d0) \<longrightarrow>
          stats_try store now = Inr d'
          \<and> map fst d' = [''total_products'', ''total_bundles'', ''category_distribution'',
                         ''source_distribution'', ''searchable_fields'', ''last_updated'']
          \<and> map_of d' ''error'' = None"
    by (elim exE conjE)
  from ok h have "stats_try store now = Inr d'
          \<and> map fst d' = [''total_products'', ''total_bundles'', ''category_distribution'',
                         ''source_distribution'', ''searchable_fields'', ''last_updated'']
          \<and> map_of d' ''error'' = None"
    by (rule rev_mp)
  with d' have "\<exists>d. get_search_stats store now = Inr d
          \<and> map fst d = [''total_products'', ''total_bundles'', ''category_distribution'',
                         ''source_distribution'', ''searchable_fields'', ''last_updated'']
          \<and> map_of d ''error'' = None"
    by (intro exI [of _ d']) simp
  with e keys show ?thesis unfolding now_def by (intro conjI)
qed

subsection \<open>Regex search in the description\<close>




end
